theory Spec2Isabelle
  imports Complex_Main "HOL-Library.Word"
begin

section \<open>JavaScript strings\<close>

text \<open>
  A JavaScript string is a sequence of UTF-16 code units; \<open>length\<close>, \<open>startsWith\<close>,
  \<open>trim\<close> and the regular expressions of the worker all work on code units.
  \<open>js\<close> turns an ASCII literal into its code units.
\<close>

type_synonym jschar = "16 word"
type_synonym jsstring = "jschar list"

definition js :: "string \<Rightarrow> jsstring" where
  "js s = map of_char s"

text \<open>\<open>String.prototype.startsWith\<close> (case-sensitive prefix test).\<close>

definition startsWith :: "jsstring \<Rightarrow> jsstring \<Rightarrow> bool" where
  "startsWith s p = (take (length p) s = p)"

text \<open>Decimal printing of a non-negative integer, as a template literal prints a count.\<close>

fun show_nat :: "nat \<Rightarrow> jsstring" where
  "show_nat n = (if n < 10 then [of_nat (48 + n)] else show_nat (n div 10) @ [of_nat (48 + n mod 10)])"

declare show_nat.simps [simp del]

text \<open>
  What a thrown exception or a rejected promise carries: \<open>request.json()\<close> rejects with
  a SyntaxError on a body that is not JSON, \<open>storage.put\<close> rejects with an error of the
  storage layer, \<open>new URL\<close> and a method call on \<open>undefined\<close> throw a TypeError.
\<close>

datatype error = SyntaxError | StorageError | TypeError

section \<open>Regular expressions of the worker\<close>

text \<open>
  The worker reads the markup with JavaScript regular expressions. Each of them is a
  sequence of single characters, character classes, greedy or lazy repetitions of a
  class, and at most one capture group; one is an alternation of two such sequences.
  They are kept as data, so that each pattern can be read against the source, and run
  by a backtracking matcher that tries the alternatives in the order the language
  prescribes: a greedy repetition takes a character first and gives it back only when the
  rest fails, a lazy one tries the rest first.
\<close>

datatype cclass =
    Chr char
  | OneOf string
  | NoneOf string
  | Space
  | Anything

datatype item =
    One cclass
  | Star cclass
  | LazyStar cclass
  | Open
  | Close

datatype regex = Regex (alternatives: "item list list") (ignoreCase: bool)

text \<open>
  White space and line terminators, as \<open>\s\<close> and \<open>trim\<close> understand them.
\<close>

definition is_space :: "jschar \<Rightarrow> bool" where
  "is_space c =
    (c = 0x09 \<or> c = 0x0A \<or> c = 0x0B \<or> c = 0x0C \<or> c = 0x0D \<or> c = 0x20 \<or> c = 0xA0
     \<or> c = 0x1680 \<or> (0x2000 \<le> c \<and> c \<le> 0x200A) \<or> c = 0x2028 \<or> c = 0x2029
     \<or> c = 0x202F \<or> c = 0x205F \<or> c = 0x3000 \<or> c = 0xFEFF)"

text \<open>
  Under the \<open>i\<close> flag two code units match when their canonical forms agree. Every
  character written in the worker's patterns is ASCII, and the language never lets a
  non-ASCII code unit canonicalise to an ASCII one, so upper-casing the ASCII letters
  decides every comparison the patterns make.
\<close>

definition canonicalize :: "bool \<Rightarrow> jschar \<Rightarrow> jschar" where
  "canonicalize ci c = (if ci \<and> 0x61 \<le> c \<and> c \<le> 0x7A then c - 0x20 else c)"

fun cmatch :: "bool \<Rightarrow> cclass \<Rightarrow> jschar \<Rightarrow> bool" where
  "cmatch ci (Chr p) c = (canonicalize ci (of_char p) = canonicalize ci c)"
| "cmatch ci (OneOf ps) c = (canonicalize ci c \<in> set (map (\<lambda>p. canonicalize ci (of_char p)) ps))"
| "cmatch ci (NoneOf ps) c = (canonicalize ci c \<notin> set (map (\<lambda>p. canonicalize ci (of_char p)) ps))"
| "cmatch ci Space c = is_space c"
| "cmatch ci Anything c = True"

text \<open>
  The result of a match that starts at the head of the string: the number of code units
  matched, and where capture group 1 began and ended (absent when the match did not
  pass through it), all counted from the start of the match.
\<close>

type_synonym mres = "nat \<times> nat option \<times> nat option"

definition shift :: "mres \<Rightarrow> mres" where
  "shift m = (case m of (n, b, e) \<Rightarrow> (Suc n, map_option Suc b, map_option Suc e))"

definition group_open :: "mres \<Rightarrow> mres" where
  "group_open m = (case m of (n, b, e) \<Rightarrow> (n, Some 0, e))"

definition group_close :: "mres \<Rightarrow> mres" where
  "group_close m = (case m of (n, b, e) \<Rightarrow> (n, b, Some 0))"

fun rmatch :: "bool \<Rightarrow> item list \<Rightarrow> jsstring \<Rightarrow> mres option" where
  "rmatch ci [] s = Some (0, None, None)"
| "rmatch ci (One c # r) [] = None"
| "rmatch ci (One c # r) (x # xs) =
     (if cmatch ci c x then map_option shift (rmatch ci r xs) else None)"
| "rmatch ci (Star c # r) [] = rmatch ci r []"
| "rmatch ci (Star c # r) (x # xs) =
     (if cmatch ci c x then
        (case rmatch ci (Star c # r) xs of
           Some m \<Rightarrow> Some (shift m)
         | None \<Rightarrow> rmatch ci r (x # xs))
      else rmatch ci r (x # xs))"
| "rmatch ci (LazyStar c # r) [] = rmatch ci r []"
| "rmatch ci (LazyStar c # r) (x # xs) =
     (case rmatch ci r (x # xs) of
        Some m \<Rightarrow> Some m
      | None \<Rightarrow>
          if cmatch ci c x then map_option shift (rmatch ci (LazyStar c # r) xs) else None)"
| "rmatch ci (Open # r) s = map_option group_open (rmatch ci r s)"
| "rmatch ci (Close # r) s = map_option group_close (rmatch ci r s)"

text \<open>The alternatives of a pattern are tried from left to right.\<close>

fun alt_match :: "bool \<Rightarrow> item list list \<Rightarrow> jsstring \<Rightarrow> mres option" where
  "alt_match ci [] s = None"
| "alt_match ci (a # as) s =
     (case rmatch ci a s of Some m \<Rightarrow> Some m | None \<Rightarrow> alt_match ci as s)"

definition match_here :: "regex \<Rightarrow> jsstring \<Rightarrow> mres option" where
  "match_here re s = alt_match (ignoreCase re) (alternatives re) s"

text \<open>
  \<open>exec\<close>: the first position, from the left, at which the pattern matches. The result
  is the rest of the string from that position on, with the match found there.
\<close>

fun exec :: "regex \<Rightarrow> jsstring \<Rightarrow> (jsstring \<times> mres) option" where
  "exec re [] = map_option (Pair []) (match_here re [])"
| "exec re (x # xs) =
     (case match_here re (x # xs) of
        Some m \<Rightarrow> Some (x # xs, m)
      | None \<Rightarrow> exec re xs)"

text \<open>\<open>re.test(s)\<close> for a pattern without the \<open>g\<close> flag.\<close>

definition test :: "regex \<Rightarrow> jsstring \<Rightarrow> bool" where
  "test re s = (exec re s \<noteq> None)"

text \<open>
  \<open>m[0]\<close> and \<open>m[1]\<close> of a match object; \<open>m[1]\<close> is \<open>undefined\<close> (\<open>None\<close>) when the
  group took no part in the match.
\<close>

definition group0 :: "jsstring \<times> mres \<Rightarrow> jsstring" where
  "group0 m = (case m of (t, n, b, e) \<Rightarrow> take n t)"

definition group1 :: "jsstring \<times> mres \<Rightarrow> jsstring option" where
  "group1 m =
    (case m of
       (t, n, Some b, Some e) \<Rightarrow> Some (take (e - b) (drop b t))
     | _ \<Rightarrow> None)"

text \<open>
  \<open>s.match(re)\<close> for a pattern with the \<open>g\<close> flag, with \<open>|| []\<close> applied: all matches
  from left to right, each search starting where the previous match ended, one position
  further after an empty match. \<open>k\<close> counts the code units still covered by the previous
  match.
\<close>

fun match_all_from :: "regex \<Rightarrow> nat \<Rightarrow> jsstring \<Rightarrow> jsstring list" where
  "match_all_from re k [] =
     (if k = 0 then (case match_here re [] of Some m \<Rightarrow> [[]] | None \<Rightarrow> []) else [])"
| "match_all_from re k (x # xs) =
     (if k > 0 then match_all_from re (k - 1) xs
      else
        (case match_here re (x # xs) of
           None \<Rightarrow> match_all_from re 0 xs
         | Some m \<Rightarrow> take (fst m) (x # xs) # match_all_from re (fst m - 1) xs))"

definition match_all :: "regex \<Rightarrow> jsstring \<Rightarrow> jsstring list" where
  "match_all re s = match_all_from re 0 s"

text \<open>
  \<open>s.replace(re, rep)\<close> for a pattern with the \<open>g\<close> flag and a replacement without
  \<open>$\<close> references.
\<close>

fun replace_from :: "regex \<Rightarrow> jsstring \<Rightarrow> nat \<Rightarrow> jsstring \<Rightarrow> jsstring" where
  "replace_from re rep k [] =
     (if k = 0 then (case match_here re [] of Some m \<Rightarrow> rep | None \<Rightarrow> []) else [])"
| "replace_from re rep k (x # xs) =
     (if k > 0 then replace_from re rep (k - 1) xs
      else
        (case match_here re (x # xs) of
           None \<Rightarrow> x # replace_from re rep 0 xs
         | Some m \<Rightarrow>
             if fst m = 0 then rep @ x # replace_from re rep 0 xs
             else rep @ replace_from re rep (fst m - 1) xs))"

definition replace :: "jsstring \<Rightarrow> regex \<Rightarrow> jsstring \<Rightarrow> jsstring" where
  "replace s re rep = replace_from re rep 0 s"

definition trim :: "jsstring \<Rightarrow> jsstring" where
  "trim s = rev (dropWhile is_space (rev (dropWhile is_space s)))"

subsection \<open>The patterns\<close>

definition lit :: "string \<Rightarrow> item list" where
  "lit s = map (\<lambda>c. One (Chr c)) s"

text \<open>The class \<open>["']\<close>, its complement \<open>[^"']\<close>, and \<open>x+\<close> as \<open>xx*\<close>.\<close>

definition quote :: cclass where
  "quote = OneOf [CHR 0x22, CHR 0x27]"

definition no_quote :: cclass where
  "no_quote = NoneOf [CHR 0x22, CHR 0x27]"

definition many1 :: "cclass \<Rightarrow> item list" where
  "many1 c = [One c, Star c]"

text \<open>\<^verbatim>\<open>/<title[^>]*>([^<]*)<\/title>/i\<close>\<close>

definition rx_title :: regex where
  "rx_title = Regex
     [lit ''<title'' @ [Star (NoneOf ''>'')] @ lit ''>'' @ [Open, Star (NoneOf ''<''), Close]
        @ lit ''</title>'']
     True"

text \<open>\<^verbatim>\<open>/<meta\s+name=["']description["']\s+content=["']([^"']*)["']/i\<close>\<close>

definition rx_description :: regex where
  "rx_description = Regex
     [lit ''<meta'' @ many1 Space @ lit ''name='' @ [One quote] @ lit ''description''
        @ [One quote] @ many1 Space @ lit ''content='' @ [One quote]
        @ [Open, Star no_quote, Close] @ [One quote]]
     True"

text \<open>\<^verbatim>\<open>/<h1[^>]*>([^<]*)<\/h1>/gi\<close>, \<^verbatim>\<open>/<h2[^>]*>/gi\<close>, \<^verbatim>\<open>/<h3[^>]*>/gi\<close>\<close>

definition rx_h1 :: regex where
  "rx_h1 = Regex
     [lit ''<h1'' @ [Star (NoneOf ''>'')] @ lit ''>'' @ [Open, Star (NoneOf ''<''), Close]
        @ lit ''</h1>'']
     True"

definition rx_h2 :: regex where
  "rx_h2 = Regex [lit ''<h2'' @ [Star (NoneOf ''>'')] @ lit ''>''] True"

definition rx_h3 :: regex where
  "rx_h3 = Regex [lit ''<h3'' @ [Star (NoneOf ''>'')] @ lit ''>''] True"

text \<open>\<^verbatim>\<open>/<[^>]*>/g\<close>, which strips the tags of a matched H1\<close>

definition rx_tag :: regex where
  "rx_tag = Regex [lit ''<'' @ [Star (NoneOf ''>'')] @ lit ''>''] False"

text \<open>\<^verbatim>\<open>/<img[^>]*>/gi\<close> and \<^verbatim>\<open>/alt\s*=\s*["'][^"']+["']/i\<close>\<close>

definition rx_img :: regex where
  "rx_img = Regex [lit ''<img'' @ [Star (NoneOf ''>'')] @ lit ''>''] True"

definition rx_alt :: regex where
  "rx_alt = Regex
     [lit ''alt'' @ [Star Space] @ lit ''='' @ [Star Space] @ [One quote] @ many1 no_quote
        @ [One quote]]
     True"

text \<open>
  \<^verbatim>\<open>/<script[^>]*>/gi\<close>, \<^verbatim>\<open>/<link[^>]*rel=["']stylesheet["'][^>]*>/gi\<close>,
  \<^verbatim>\<open>/<style[^>]*>/gi\<close>
\<close>

definition rx_script :: regex where
  "rx_script = Regex [lit ''<script'' @ [Star (NoneOf ''>'')] @ lit ''>''] True"

definition rx_stylesheet :: regex where
  "rx_stylesheet = Regex
     [lit ''<link'' @ [Star (NoneOf ''>'')] @ lit ''rel='' @ [One quote] @ lit ''stylesheet''
        @ [One quote] @ [Star (NoneOf ''>'')] @ lit ''>'']
     True"

definition rx_style :: regex where
  "rx_style = Regex [lit ''<style'' @ [Star (NoneOf ''>'')] @ lit ''>''] True"

text \<open>
  \<^verbatim>\<open>/<meta[^>]*name=["']viewport["']/i\<close>, \<^verbatim>\<open>/<meta[^>]*charset/i\<close>,
  \<^verbatim>\<open>/<link[^>]*rel=["']canonical["']/i\<close>, \<^verbatim>\<open>/<meta[^>]*name=["']robots["']/i\<close>,
  \<^verbatim>\<open>/<meta[^>]*property=["']og:/i\<close>
\<close>

definition rx_viewport :: regex where
  "rx_viewport = Regex
     [lit ''<meta'' @ [Star (NoneOf ''>'')] @ lit ''name='' @ [One quote] @ lit ''viewport''
        @ [One quote]]
     True"

definition rx_charset :: regex where
  "rx_charset = Regex [lit ''<meta'' @ [Star (NoneOf ''>'')] @ lit ''charset''] True"

definition rx_canonical :: regex where
  "rx_canonical = Regex
     [lit ''<link'' @ [Star (NoneOf ''>'')] @ lit ''rel='' @ [One quote] @ lit ''canonical''
        @ [One quote]]
     True"

definition rx_robots :: regex where
  "rx_robots = Regex
     [lit ''<meta'' @ [Star (NoneOf ''>'')] @ lit ''name='' @ [One quote] @ lit ''robots''
        @ [One quote]]
     True"

definition rx_opengraph :: regex where
  "rx_opengraph = Regex
     [lit ''<meta'' @ [Star (NoneOf ''>'')] @ lit ''property='' @ [One quote] @ lit ''og:'']
     True"

text \<open>
  \<^verbatim>\<open>/<script[^>]*type=["']application\/ld\+json["']/i\<close>, \<^verbatim>\<open>/itemscope|itemtype/i\<close>,
  \<^verbatim>\<open>/<html[^>]*lang=/i\<close>
\<close>

definition rx_jsonld :: regex where
  "rx_jsonld = Regex
     [lit ''<script'' @ [Star (NoneOf ''>'')] @ lit ''type='' @ [One quote]
        @ lit ''application/ld+json'' @ [One quote]]
     True"

definition rx_microdata :: regex where
  "rx_microdata = Regex [lit ''itemscope'', lit ''itemtype''] True"

definition rx_lang :: regex where
  "rx_lang = Regex [lit ''<html'' @ [Star (NoneOf ''>'')] @ lit ''lang=''] True"

text \<open>\<^verbatim>\<open>/<a[^>]*href=["']([^"']*)["']/gi\<close> and \<^verbatim>\<open>/href=["']([^"']*)["']/i\<close>\<close>

definition rx_link :: regex where
  "rx_link = Regex
     [lit ''<a'' @ [Star (NoneOf ''>'')] @ lit ''href='' @ [One quote]
        @ [Open, Star no_quote, Close] @ [One quote]]
     True"

definition rx_href :: regex where
  "rx_href = Regex
     [lit ''href='' @ [One quote] @ [Open, Star no_quote, Close] @ [One quote]]
     True"

text \<open>
  \<^verbatim>\<open>/<script[^>]*>[\s\S]*?<\/script>/gi\<close>, \<^verbatim>\<open>/<style[^>]*>[\s\S]*?<\/style>/gi\<close>,
  \<^verbatim>\<open>/<[^>]+>/g\<close>, \<^verbatim>\<open>/\s+/g\<close>
\<close>

definition rx_script_block :: regex where
  "rx_script_block = Regex
     [lit ''<script'' @ [Star (NoneOf ''>'')] @ lit ''>'' @ [LazyStar Anything]
        @ lit ''</script>'']
     True"

definition rx_style_block :: regex where
  "rx_style_block = Regex
     [lit ''<style'' @ [Star (NoneOf ''>'')] @ lit ''>'' @ [LazyStar Anything]
        @ lit ''</style>'']
     True"

definition rx_any_tag :: regex where
  "rx_any_tag = Regex [lit ''<'' @ many1 (NoneOf ''>'') @ lit ''>''] False"

definition rx_spaces :: regex where
  "rx_spaces = Regex [many1 Space] False"

section \<open>Data model of the worker (worker.ts)\<close>

record PageMetrics =
  url :: jsstring
  title :: jsstring
  description :: jsstring
  h1Count :: nat
  h2Count :: nat
  h3Count :: nat
  imgCount :: nat
  imgWithAltCount :: nat
  scriptCount :: nat
  stylesheetCount :: nat
  inlineStyleCount :: nat
  htmlLength :: nat
  hasViewport :: bool
  hasLang :: bool
  hasCanonical :: bool
  hasRobots :: bool
  hasOpenGraph :: bool
  hasStructuredData :: bool
  hasCharset :: bool
  isHttps :: bool
  linkCount :: nat
  internalLinkCount :: nat
  externalLinkCount :: nat
  hasH1 :: bool
  uniqueH1 :: bool
  textToHtmlRatio :: int

datatype severity = positive | warning | critical
datatype category = seo_cat | performance_cat | accessibility_cat | best_practices_cat
datatype priority_level = high | medium | low

record Finding =
  ftype :: severity
  fcategory :: category
  ftitle :: jsstring
  fdescription :: jsstring

record Recommendation =
  priority :: priority_level
  rtitle :: jsstring
  rdescription :: jsstring
  impact :: jsstring

record Scores =
  seo :: int
  performance :: int
  accessibility :: int
  bestPractices :: int

record Analysis =
  scores :: Scores
  findings :: "Finding list"
  recommendations :: "Recommendation list"
  summary :: jsstring

section \<open>extractMetrics (worker.ts)\<close>

subsection \<open>The arithmetic of the text ratio\<close>

text \<open>
  \<open>(textContent.length / html.length) * 100\<close> is computed in double precision and then
  given to \<open>Math.round\<close>. Both lengths are integers below \<open>2^53\<close>, hence exact as
  doubles. A non-negative double is kept as a pair \<open>(m, e)\<close> that stands for
  \<open>m * 2^e\<close>; division and multiplication round the exact result to 53 significant
  bits, to nearest and ties to even.
\<close>

fun bitlen :: "nat \<Rightarrow> nat" where
  "bitlen n = (if n = 0 then 0 else Suc (bitlen (n div 2)))"

declare bitlen.simps [simp del]

text \<open>The integer nearest to \<open>p / q\<close>, the even one of two equally near.\<close>

definition round_half_even :: "nat \<Rightarrow> nat \<Rightarrow> nat" where
  "round_half_even p q =
    (let d = p div q; r = p mod q
     in if 2 * r < q then d else if 2 * r > q then d + 1 else if even d then d else d + 1)"

definition double_div :: "nat \<Rightarrow> nat \<Rightarrow> nat \<times> int" where
  "double_div a b =
    (if a = 0 then (0, 0)
     else
       (let la = bitlen a; lb = bitlen b;
            ex = (if a * 2 ^ lb \<ge> b * 2 ^ la then int la - int lb else int la - int lb - 1);
            sh = 52 - ex
        in (if sh \<ge> 0 then round_half_even (a * 2 ^ nat sh) b
            else round_half_even a (b * 2 ^ nat (- sh)),
            - sh)))"

definition double_mul :: "nat \<times> int \<Rightarrow> nat \<Rightarrow> nat \<times> int" where
  "double_mul x k =
    (case x of (m, e) \<Rightarrow>
       (let p = m * k; l = bitlen p
        in if l \<le> 53 then (p, e) else (round_half_even p (2 ^ (l - 53)), e + int (l - 53))))"

text \<open>\<open>Math.round\<close>: the nearest integer, the larger one of two equally near.\<close>

definition Math_round :: "nat \<times> int \<Rightarrow> int" where
  "Math_round x =
    (case x of (m, e) \<Rightarrow>
       if e \<ge> 0 then int (m * 2 ^ nat e)
       else int ((2 * m + 2 ^ nat (- e)) div 2 ^ (nat (- e) + 1)))"

subsection \<open>The URL parser\<close>

text \<open>
  \<open>new URL(s).hostname\<close> is computed by the platform's URL parser, which is no part of
  the repository. \<open>extractMetrics\<close> and \<open>classifyLink\<close> take it as the parameter
  \<open>URL_hostname\<close>: \<open>None\<close> when the constructor throws a TypeError, the host name
  otherwise.

  For examples, \<open>plain_URL_hostname\<close> gives the parser's answer on the URLs that the
  examples use: \<open>https://example.com\<close>, \<open>https://example.com/a\<close> and
  \<open>https://other.org/\<close>, whose host names \<open>example.com\<close> and \<open>other.org\<close> the
  parser returns unchanged, and \<open>http://\<close>, which the parser rejects because the host
  is missing. It is no model of the parser on other strings (it knows nothing of ports,
  user names, upper case, IP addresses or internationalised host names) and is applied
  to none.
\<close>

definition plain_URL_hostname :: "jsstring \<Rightarrow> jsstring option" where
  "plain_URL_hostname s =
    (let rest = (if startsWith s (js ''https://'') then Some (drop 8 s)
                 else if startsWith s (js ''http://'') then Some (drop 7 s)
                 else None)
     in case rest of
          None \<Rightarrow> None
        | Some r \<Rightarrow>
            (let host = takeWhile (\<lambda>c. c \<notin> set (js ''/?#'')) r
             in if host = [] then None else Some host))"

subsection \<open>The extraction\<close>

text \<open>
  \<open>titleMatch ? titleMatch[1].trim() : ''\<close>; reading \<open>trim\<close> from an undefined group
  would throw a TypeError.
\<close>

definition trimmed_group1 :: "regex \<Rightarrow> jsstring \<Rightarrow> error + jsstring" where
  "trimmed_group1 re html =
    (case exec re html of
       None \<Rightarrow> Inr []
     | Some m \<Rightarrow> (case group1 m of None \<Rightarrow> Inl TypeError | Some g \<Rightarrow> Inr (trim g)))"

text \<open>
  The body of \<open>linkTags.forEach\<close>, on the two counters \<open>internalLinkCount\<close> and
  \<open>externalLinkCount\<close>. \<open>new URL(href)\<close> is inside a
  \<open>try\<close> whose \<open>catch\<close> does nothing.
\<close>

definition classifyLink ::
  "(jsstring \<Rightarrow> jsstring option) \<Rightarrow> jsstring \<Rightarrow> jsstring \<Rightarrow> nat \<times> nat \<Rightarrow> error + nat \<times> nat" where
  "classifyLink URL_hostname urlHostname link counts =
    (case counts of (internalLinks, externalLinks) \<Rightarrow>
       (case exec rx_href link of
          None \<Rightarrow> Inr (internalLinks, externalLinks)
        | Some hrefMatch \<Rightarrow>
            (case group1 hrefMatch of
               None \<Rightarrow> Inl TypeError
             | Some href \<Rightarrow>
                 if startsWith href (js ''http'') then
                   (case URL_hostname href of
                      Some linkHostname \<Rightarrow>
                        if linkHostname = urlHostname
                        then Inr (internalLinks + 1, externalLinks)
                        else Inr (internalLinks, externalLinks + 1)
                    | None \<Rightarrow> Inr (internalLinks, externalLinks))
                 else if startsWith href (js ''/'') \<or> \<not> startsWith href (js ''#'')
                 then Inr (internalLinks + 1, externalLinks)
                 else Inr (internalLinks, externalLinks))))"

fun forEach_link ::
  "(jsstring \<Rightarrow> jsstring option) \<Rightarrow> jsstring \<Rightarrow> jsstring list \<Rightarrow> nat \<times> nat \<Rightarrow> error + nat \<times> nat" where
  "forEach_link URL_hostname urlHostname [] counts = Inr counts"
| "forEach_link URL_hostname urlHostname (link # linkTags) counts =
     (case classifyLink URL_hostname urlHostname link counts of
        Inl e \<Rightarrow> Inl e
      | Inr counts' \<Rightarrow> forEach_link URL_hostname urlHostname linkTags counts')"

definition h1Tags_of :: "jsstring \<Rightarrow> jsstring list" where
  "h1Tags_of html = match_all rx_h1 html"

text \<open>
  \<open>new Set(h1Tags.map(tag => tag.replace(/<[^>]*>/g, '').trim()))\<close>: the distinct
  trimmed texts of the matched H1 elements.
\<close>

definition h1_text :: "jsstring \<Rightarrow> jsstring" where
  "h1_text tag = trim (replace tag rx_tag [])"

definition uniqueH1Values_of :: "jsstring \<Rightarrow> jsstring list" where
  "uniqueH1Values_of html = remdups (map h1_text (h1Tags_of html))"

definition linkTags_of :: "jsstring \<Rightarrow> jsstring list" where
  "linkTags_of html = match_all rx_link html"

definition textContent_of :: "jsstring \<Rightarrow> jsstring" where
  "textContent_of html =
    trim (replace (replace (replace (replace html rx_script_block []) rx_style_block [])
                     rx_any_tag (js '' '')) rx_spaces (js '' ''))"

definition extractMetrics ::
  "(jsstring \<Rightarrow> jsstring option) \<Rightarrow> jsstring \<Rightarrow> jsstring \<Rightarrow> error + PageMetrics" where
  "extractMetrics URL_hostname html pageUrl =
    (case trimmed_group1 rx_title html of Inl e \<Rightarrow> Inl e | Inr titleText \<Rightarrow>
     case trimmed_group1 rx_description html of Inl e \<Rightarrow> Inl e | Inr descriptionText \<Rightarrow>
       (let h1Tags = h1Tags_of html;
            h2Tags = match_all rx_h2 html;
            h3Tags = match_all rx_h3 html;
            uniqueH1Values = uniqueH1Values_of html;
            imgTags = match_all rx_img html;
            imgWithAlt = filter (test rx_alt) imgTags;
            scriptTags = match_all rx_script html;
            stylesheetTags = match_all rx_stylesheet html;
            inlineStyles = match_all rx_style html;
            hasViewport = test rx_viewport html;
            hasCharset = test rx_charset html;
            hasCanonical = test rx_canonical html;
            hasRobots = test rx_robots html;
            hasOpenGraph = test rx_opengraph html;
            hasStructuredData = (test rx_jsonld html \<or> test rx_microdata html);
            hasLang = test rx_lang html;
            isHttps = startsWith pageUrl (js ''https://'');
            linkTags = linkTags_of html
        in case URL_hostname pageUrl of
             None \<Rightarrow> Inl TypeError
           | Some urlHostname \<Rightarrow>
               (case forEach_link URL_hostname urlHostname linkTags (0, 0) of
                  Inl e \<Rightarrow> Inl e
                | Inr (internalLinks, externalLinks) \<Rightarrow>
                    (let textContent = textContent_of html;
                         textToHtmlRatio =
                           (if length html > 0
                            then double_mul (double_div (length textContent) (length html)) 100
                            else (0, 0))
                     in Inr \<lparr> url = pageUrl,
                              title = titleText,
                              description = descriptionText,
                              h1Count = length h1Tags,
                              h2Count = length h2Tags,
                              h3Count = length h3Tags,
                              imgCount = length imgTags,
                              imgWithAltCount = length imgWithAlt,
                              scriptCount = length scriptTags,
                              stylesheetCount = length stylesheetTags,
                              inlineStyleCount = length inlineStyles,
                              htmlLength = length html,
                              hasViewport = hasViewport,
                              hasLang = hasLang,
                              hasCanonical = hasCanonical,
                              hasRobots = hasRobots,
                              hasOpenGraph = hasOpenGraph,
                              hasStructuredData = hasStructuredData,
                              hasCharset = hasCharset,
                              isHttps = isHttps,
                              linkCount = length linkTags,
                              internalLinkCount = internalLinks,
                              externalLinkCount = externalLinks,
                              hasH1 = (length h1Tags > 0),
                              uniqueH1 = (length uniqueH1Values = 1 \<and> length h1Tags > 0),
                              textToHtmlRatio = Math_round textToHtmlRatio \<rparr>))))"

subsection \<open>Markup for examples\<close>

text \<open>
  The double quote, an anchor's opening tag up to the closing quote of its \<open>href\<close>
  (what the link pattern matches), and the whole anchor element.
\<close>

definition dq :: jsstring where
  "dq = [0x22]"

definition anchor :: "string \<Rightarrow> jsstring" where
  "anchor href = js ''<a href='' @ dq @ js href @ dq"

definition anchor_element :: "string \<Rightarrow> jsstring" where
  "anchor_element href = anchor href @ js ''>x</a>''"


definition scheme_links :: jsstring where
  "scheme_links = concat (map anchor_element
     [''mailto:a@b.c'', ''tel:+15550100'', ''javascript:void(0)''])"



text \<open>\<open>hrefMatch[1]\<close> of a link tag, when the inner pattern matches.\<close>

definition href_of :: "jsstring \<Rightarrow> jsstring option" where
  "href_of link = (case exec rx_href link of None \<Rightarrow> None | Some hrefMatch \<Rightarrow> group1 hrefMatch)"

section \<open>createFallbackAnalysis (worker.ts)\<close>

text \<open>
  \<open>if (metrics.title)\<close> tests a string for truthiness: it holds for every string but the
  empty one. \<open>findings.push\<close> appends. The counts are non-negative integers, and
  \<open>metrics.imgCount / 2\<close> is a floating-point division, exact for a division by two,
  so it is written over the reals.
\<close>

definition push_if :: "bool \<Rightarrow> 'a \<Rightarrow> 'a list \<Rightarrow> 'a list" where
  "push_if c x xs = (if c then xs @ [x] else xs)"

definition fallbackScores :: "PageMetrics \<Rightarrow> Scores" where
  "fallbackScores metrics =
    (let seoScore = (50::int);
         seoScore = (if title metrics \<noteq> [] then seoScore + 10 else seoScore);
         seoScore = (if description metrics \<noteq> [] then seoScore + 10 else seoScore);
         seoScore = (if hasH1 metrics then seoScore + 10 else seoScore);
         seoScore = (if hasCanonical metrics then seoScore + 5 else seoScore);
         seoScore = (if hasOpenGraph metrics then seoScore + 5 else seoScore);
         seoScore = (if uniqueH1 metrics then seoScore + 10 else seoScore);
         perfScore = (70::int);
         perfScore = (if htmlLength metrics < 50000 then perfScore + 10 else perfScore);
         perfScore = (if scriptCount metrics < 10 then perfScore + 10 else perfScore);
         perfScore = (if inlineStyleCount metrics = 0 then perfScore + 10 else perfScore);
         a11yScore = (50::int);
         a11yScore =
           (if imgCount metrics > 0 \<and> imgWithAltCount metrics = imgCount metrics then a11yScore + 30
            else if real (imgWithAltCount metrics) > real (imgCount metrics) / 2 then a11yScore + 15
            else a11yScore);
         a11yScore = (if hasLang metrics then a11yScore + 10 else a11yScore);
         a11yScore = (if hasViewport metrics then a11yScore + 10 else a11yScore);
         bestPracticesScore = (60::int);
         bestPracticesScore = (if isHttps metrics then bestPracticesScore + 15 else bestPracticesScore);
         bestPracticesScore = (if hasCharset metrics then bestPracticesScore + 10 else bestPracticesScore);
         bestPracticesScore = (if hasViewport metrics then bestPracticesScore + 15 else bestPracticesScore)
     in \<lparr> seo = min seoScore 100,
          performance = min perfScore 100,
          accessibility = min a11yScore 100,
          bestPractices = min bestPracticesScore 100 \<rparr>)"

definition fallbackFindings :: "PageMetrics \<Rightarrow> Finding list" where
  "fallbackFindings metrics =
    (let findings = [];
         findings = push_if (title metrics = [])
           \<lparr> ftype = critical, fcategory = seo_cat, ftitle = js ''Missing Title'',
             fdescription = js ''Page has no title tag'' \<rparr> findings;
         findings = push_if (description metrics = [])
           \<lparr> ftype = warning, fcategory = seo_cat, ftitle = js ''Missing Meta Description'',
             fdescription = js ''No meta description found'' \<rparr> findings;
         findings = push_if (\<not> hasH1 metrics)
           \<lparr> ftype = critical, fcategory = seo_cat, ftitle = js ''Missing H1'',
             fdescription = js ''Page has no H1 heading'' \<rparr> findings;
         findings = push_if (imgWithAltCount metrics < imgCount metrics)
           \<lparr> ftype = warning, fcategory = accessibility_cat, ftitle = js ''Missing Alt Text'',
             fdescription = show_nat (imgCount metrics - imgWithAltCount metrics)
               @ js '' images missing alt text'' \<rparr> findings;
         findings = push_if (\<not> isHttps metrics)
           \<lparr> ftype = critical, fcategory = best_practices_cat, ftitle = js ''Not HTTPS'',
             fdescription = js ''Site is not using HTTPS'' \<rparr> findings;
         findings = push_if (isHttps metrics)
           \<lparr> ftype = positive, fcategory = best_practices_cat, ftitle = js ''Using HTTPS'',
             fdescription = js ''Site is secured with HTTPS'' \<rparr> findings;
         findings = push_if (title metrics \<noteq> [])
           \<lparr> ftype = positive, fcategory = seo_cat, ftitle = js ''Has Title Tag'',
             fdescription = js ''Page has a title tag'' \<rparr> findings
     in findings)"

definition fallbackRecommendations :: "PageMetrics \<Rightarrow> Recommendation list" where
  "fallbackRecommendations metrics =
    (let recommendations = [];
         recommendations = push_if (\<not> hasCanonical metrics)
           \<lparr> priority = medium, rtitle = js ''Add Canonical URL'',
             rdescription = js ''Add a canonical link tag to specify the preferred URL'',
             impact = js ''Helps prevent duplicate content issues'' \<rparr> recommendations;
         recommendations = push_if (\<not> hasOpenGraph metrics)
           \<lparr> priority = medium, rtitle = js ''Add Open Graph Tags'',
             rdescription = js ''Add OG tags for better social media sharing'',
             impact = js ''Improves social media presence'' \<rparr> recommendations;
         recommendations = push_if (scriptCount metrics > 15)
           \<lparr> priority = high, rtitle = js ''Reduce Script Count'',
             rdescription = js ''Too many script tags may slow page load'',
             impact = js ''Improves page load time'' \<rparr> recommendations;
         recommendations = push_if (\<not> hasStructuredData metrics)
           \<lparr> priority = low, rtitle = js ''Add Structured Data'',
             rdescription = js ''Implement schema.org markup for rich snippets'',
             impact = js ''Enhances search results display'' \<rparr> recommendations
     in recommendations)"

definition createFallbackAnalysis :: "PageMetrics \<Rightarrow> Analysis" where
  "createFallbackAnalysis metrics =
    (let findings = fallbackFindings metrics;
         recommendations = fallbackRecommendations metrics
     in \<lparr> scores = fallbackScores metrics,
          findings = findings,
          recommendations = recommendations,
          summary = js ''This website has ''
            @ show_nat (length (filter (\<lambda>f. ftype f = critical) findings))
            @ js '' critical issues and ''
            @ show_nat (length (filter (\<lambda>f. ftype f = warning) findings))
            @ js '' warnings. Focus on improving SEO fundamentals and accessibility.'' \<rparr>)"

subsection \<open>The point table of the specification\<close>

text \<open>
  The scorer as the specification words it: a base value per score, a fixed bonus per
  satisfied condition, the sum clamped to 100.
\<close>

definition bonus :: "bool \<Rightarrow> int \<Rightarrow> int" where
  "bonus c n = (if c then n else 0)"

definition table_seo :: "PageMetrics \<Rightarrow> int" where
  "table_seo m = min 100 (50 + bonus (title m \<noteq> []) 10 + bonus (description m \<noteq> []) 10
     + bonus (hasH1 m) 10 + bonus (hasCanonical m) 5 + bonus (hasOpenGraph m) 5
     + bonus (uniqueH1 m) 10)"

definition table_performance :: "PageMetrics \<Rightarrow> int" where
  "table_performance m = min 100 (70 + bonus (htmlLength m < 50000) 10
     + bonus (scriptCount m < 10) 10 + bonus (inlineStyleCount m = 0) 10)"

definition table_accessibility :: "PageMetrics \<Rightarrow> int" where
  "table_accessibility m = min 100 (50
     + (if imgCount m > 0 \<and> imgWithAltCount m = imgCount m then 30
        else bonus (real (imgWithAltCount m) > real (imgCount m) / 2) 15)
     + bonus (hasLang m) 10 + bonus (hasViewport m) 10)"

definition table_bestPractices :: "PageMetrics \<Rightarrow> int" where
  "table_bestPractices m = min 100 (60 + bonus (isHttps m) 15 + bonus (hasCharset m) 10
     + bonus (hasViewport m) 15)"

text \<open>
  The metrics of the specification's scenario: no title, no description, one H1,
  three images without alt text, two scripts, no inline style, no \<open>lang\<close>, viewport and
  charset present, fetched over HTTPS.
\<close>

definition scenario_metrics :: PageMetrics where
  "scenario_metrics =
    \<lparr> url = js ''https://example.com'', title = [], description = [],
      h1Count = 1, h2Count = 0, h3Count = 0, imgCount = 3, imgWithAltCount = 0,
      scriptCount = 2, stylesheetCount = 0, inlineStyleCount = 0, htmlLength = 200,
      hasViewport = True, hasLang = False, hasCanonical = False, hasRobots = False,
      hasOpenGraph = False, hasStructuredData = False, hasCharset = True, isHttps = True,
      linkCount = 0, internalLinkCount = 0, externalLinkCount = 0,
      hasH1 = True, uniqueH1 = True, textToHtmlRatio = 0 \<rparr>"

section \<open>Status mapping of the vitals normalizer (getStatus in fetchCoreWebVitals)\<close>

datatype metric_status = good | needs_improvement | poor | unavailable

text \<open>
  \<open>score: number | undefined\<close> becomes an option. The scores come from a JSON
  document, so they are finite; a finite double is a rational, and comparing it with the
  double nearest to 0.9 gives the same answer as comparing it with 9/10 (that double lies
  above 9/10 and no double lies in between), likewise for 0.5, which is a double.
\<close>

definition getStatus :: "real option \<Rightarrow> metric_status" where
  "getStatus score =
    (case score of
       None \<Rightarrow> unavailable
     | Some s \<Rightarrow> if s \<ge> 0.9 then good else if s \<ge> 0.5 then needs_improvement else poor)"

section \<open>fetchCoreWebVitals (worker.ts)\<close>

text \<open>
  The numbers of the measurement API's response are non-negative doubles, kept as pairs
  \<open>(m, e)\<close> that stand for \<open>m * 2^e\<close> like the ones of the text ratio.
\<close>

type_synonym double = "nat \<times> int"

definition double_value :: "double \<Rightarrow> real" where
  "double_value x =
    (case x of (m, e) \<Rightarrow> if e \<ge> 0 then real m * 2 ^ nat e else real m / 2 ^ nat (- e))"

text \<open>\<open>x / k\<close> for a positive integer \<open>k\<close>, rounded to a double.\<close>

definition double_div_by :: "double \<Rightarrow> nat \<Rightarrow> double" where
  "double_div_by x k = (case x of (m, e) \<Rightarrow> (case double_div m k of (m', e') \<Rightarrow> (m', e' + e)))"

text \<open>
  \<open>x.toFixed(f)\<close> for \<open>x\<close> below \<open>10^21\<close>: the integer nearest to \<open>x * 10^f\<close>, the
  larger one of two equally near, printed with \<open>f\<close> digits after the point.
\<close>

definition toFixed :: "double \<Rightarrow> nat \<Rightarrow> jsstring" where
  "toFixed x f =
    (case x of (m, e) \<Rightarrow>
       (let n = (if e \<ge> 0 then m * 2 ^ nat e * 10 ^ f
                 else (2 * m * 10 ^ f + 2 ^ nat (- e)) div 2 ^ (nat (- e) + 1));
            digits = show_nat n;
            digits = replicate (f + 1 - length digits) (of_char CHR ''0'') @ digits
        in if f = 0 then digits
           else take (length digits - f) digits @ js ''.'' @ drop (length digits - f) digits))"

definition formatMetric :: "double \<Rightarrow> jsstring \<Rightarrow> jsstring" where
  "formatMetric v unit =
    (if unit = js ''millisecond'' then show_nat (nat (Math_round v)) @ js ''ms''
     else if unit = js ''unitless'' then toFixed v 3
     else toFixed v 2 @ unit)"

text \<open>
  The response of the measurement API, as far as the worker reads it: the audits of
  \<open>lighthouseResult\<close> by name, the score of its performance category, and the metrics of
  \<open>loadingExperience\<close>. An optional field is \<open>None\<close> when it is missing; a field metric
  that is present carries its percentile.
\<close>

record Audit =
  audit_score :: "double option"
  displayValue :: "jsstring option"
  numericValue :: "double option"

record FieldMetric =
  percentile :: double

record FieldData =
  LARGEST_CONTENTFUL_PAINT_MS :: "FieldMetric option"
  FIRST_INPUT_DELAY_MS :: "FieldMetric option"
  CUMULATIVE_LAYOUT_SHIFT_SCORE :: "FieldMetric option"
  FIRST_CONTENTFUL_PAINT_MS :: "FieldMetric option"

record PageSpeedData =
  lighthouse_audits :: "(string \<rightharpoonup> Audit) option"
  lighthouse_performance_score :: "double option"
  loadingExperience_metrics :: "FieldData option"

record Vital =
  vital_status :: metric_status
  vital_value :: jsstring
  vital_score :: "double option"

datatype vitals_source = pagespeed | estimated | source_unavailable

record CoreWebVitals =
  lcp :: Vital
  fid :: Vital
  cls :: Vital
  fcp :: "Vital option"
  ttfb :: "Vital option"
  speedIndex :: "double option"
  performanceScore :: "int option"
  source :: vitals_source

text \<open>\<open>a || b\<close> on an optional string: \<open>b\<close> when \<open>a\<close> is missing or empty.\<close>

definition or_else :: "jsstring option \<Rightarrow> jsstring \<Rightarrow> jsstring" where
  "or_else a b = (case a of None \<Rightarrow> b | Some s \<Rightarrow> if s = [] then b else s)"

definition unavailable_vitals :: "jsstring \<Rightarrow> CoreWebVitals" where
  "unavailable_vitals message =
    \<lparr> lcp = \<lparr> vital_status = unavailable, vital_value = message, vital_score = None \<rparr>,
      fid = \<lparr> vital_status = unavailable, vital_value = message, vital_score = None \<rparr>,
      cls = \<lparr> vital_status = unavailable, vital_value = message, vital_score = None \<rparr>,
      fcp = Some \<lparr> vital_status = unavailable, vital_value = message, vital_score = None \<rparr>,
      ttfb = Some \<lparr> vital_status = unavailable, vital_value = message, vital_score = None \<rparr>,
      speedIndex = None, performanceScore = None, source = source_unavailable \<rparr>"

text \<open>The object built from a response that arrived and parsed.\<close>

definition measured_vitals :: "PageSpeedData \<Rightarrow> CoreWebVitals" where
  "measured_vitals data =
    (let lighthouseMetrics = lighthouse_audits data;
         fieldData = loadingExperience_metrics data;
         lcp = Option.bind fieldData LARGEST_CONTENTFUL_PAINT_MS;
         fid = Option.bind fieldData FIRST_INPUT_DELAY_MS;
         cls = Option.bind fieldData CUMULATIVE_LAYOUT_SHIFT_SCORE;
         fcp = Option.bind fieldData FIRST_CONTENTFUL_PAINT_MS;
         lcpAudit = Option.bind lighthouseMetrics (\<lambda>a. a ''largest-contentful-paint'');
         fidAudit = Option.bind lighthouseMetrics (\<lambda>a. a ''max-potential-fid'');
         clsAudit = Option.bind lighthouseMetrics (\<lambda>a. a ''cumulative-layout-shift'');
         fcpAudit = Option.bind lighthouseMetrics (\<lambda>a. a ''first-contentful-paint'');
         ttfbAudit = Option.bind lighthouseMetrics (\<lambda>a. a ''server-response-time'');
         speedIndex = Option.bind lighthouseMetrics (\<lambda>a. a ''speed-index'');
         performanceScore = lighthouse_performance_score data
     in \<lparr> lcp =
            \<lparr> vital_status = getStatus (map_option double_value (Option.bind lcpAudit audit_score)),
              vital_value = or_else (Option.bind lcpAudit displayValue)
                (case lcp of Some l \<Rightarrow> formatMetric (percentile l) (js ''ms'') | None \<Rightarrow> js ''N/A''),
              vital_score = Option.bind lcpAudit audit_score \<rparr>,
          fid =
            \<lparr> vital_status = getStatus (map_option double_value (Option.bind fidAudit audit_score)),
              vital_value = or_else (Option.bind fidAudit displayValue)
                (case fid of Some l \<Rightarrow> formatMetric (percentile l) (js ''ms'') | None \<Rightarrow> js ''N/A''),
              vital_score = Option.bind fidAudit audit_score \<rparr>,
          cls =
            \<lparr> vital_status = getStatus (map_option double_value (Option.bind clsAudit audit_score)),
              vital_value = or_else (Option.bind clsAudit displayValue)
                (case cls of Some l \<Rightarrow> formatMetric (double_div_by (percentile l) 100) []
                 | None \<Rightarrow> js ''N/A''),
              vital_score = Option.bind clsAudit audit_score \<rparr>,
          fcp = Some
            \<lparr> vital_status = getStatus (map_option double_value (Option.bind fcpAudit audit_score)),
              vital_value = or_else (Option.bind fcpAudit displayValue)
                (case fcp of Some l \<Rightarrow> formatMetric (percentile l) (js ''ms'') | None \<Rightarrow> js ''N/A''),
              vital_score = Option.bind fcpAudit audit_score \<rparr>,
          ttfb = Some
            \<lparr> vital_status = getStatus (map_option double_value (Option.bind ttfbAudit audit_score)),
              vital_value = or_else (Option.bind ttfbAudit displayValue) (js ''N/A''),
              vital_score = Option.bind ttfbAudit audit_score \<rparr>,
          speedIndex = Option.bind speedIndex numericValue,
          performanceScore =
            (case performanceScore of
               None \<Rightarrow> None
             | Some p \<Rightarrow> if fst p = 0 then None else Some (Math_round (double_mul p 100))),
          source = pagespeed \<rparr>)"

text \<open>
  \<open>apiKey\<close> is the optional credential; \<open>api\<close> is what the \<open>try\<close> block obtains from
  the network: \<open>Inl\<close> when \<open>fetch\<close> rejects, the status is not a success or the body is
  not JSON (each ends in the \<open>catch\<close>), the parsed response otherwise.
\<close>

definition fetchCoreWebVitals :: "jsstring option \<Rightarrow> error + PageSpeedData \<Rightarrow> CoreWebVitals" where
  "fetchCoreWebVitals apiKey api =
    (if apiKey = None \<or> apiKey = Some [] then unavailable_vitals (js ''API key required'')
     else
       (case api of
          Inl e \<Rightarrow> unavailable_vitals (js ''Measurement failed'')
        | Inr data \<Rightarrow> measured_vitals data))"

text \<open>
  Two responses for examples: one with a lab audit and a field measurement of LCP, and
  one with the field measurement alone.
\<close>

definition lab_and_field :: PageSpeedData where
  "lab_and_field =
    \<lparr> lighthouse_audits = Some
        [''largest-contentful-paint'' \<mapsto>
           \<lparr> audit_score = Some (double_div 95 100), displayValue = Some (js ''1.2 s''),
             numericValue = Some (1200, 0) \<rparr>],
      lighthouse_performance_score = Some (double_div 95 100),
      loadingExperience_metrics = Some
        \<lparr> LARGEST_CONTENTFUL_PAINT_MS = Some \<lparr> percentile = (2500, 0) \<rparr>,
          FIRST_INPUT_DELAY_MS = None, CUMULATIVE_LAYOUT_SHIFT_SCORE = None,
          FIRST_CONTENTFUL_PAINT_MS = None \<rparr> \<rparr>"

definition field_only :: PageSpeedData where
  "field_only = lab_and_field \<lparr> lighthouse_audits := None \<rparr>"

section \<open>The history store (inspector-do.ts)\<close>

record Report =
  report_id :: jsstring
  report_url :: jsstring
  report_title :: jsstring
  report_description :: jsstring
  reportText :: jsstring
  metrics :: PageMetrics
  createdAt :: jsstring

text \<open>
  A request as the object reads it: the path of its URL, its method, and what
  \<open>request.json()\<close> resolves to (\<open>None\<close> when it rejects).
\<close>

record Request =
  pathname :: jsstring
  http_method :: jsstring
  json_body :: "Report option"

datatype body =
    SuccessBody
  | ErrorBody error
  | ReportsBody "Report list"
  | NotFoundBody

record Response =
  status :: nat
  body :: body

text \<open>
  The object's fields: the in-memory array \<open>this.reports\<close> and the durable storage
  \<open>this.state.storage\<close>, a store of values under string keys.
\<close>

record InspectorDO =
  reports :: "Report list"
  storage :: "jsstring \<rightharpoonup> Report list"

text \<open>The constructor: \<open>this.reports = stored || []\<close>, run before any request is served.\<close>

definition constructor :: "(jsstring \<rightharpoonup> Report list) \<Rightarrow> InspectorDO" where
  "constructor st =
    \<lparr> reports = (case st (js ''reports'') of Some stored \<Rightarrow> stored | None \<Rightarrow> []),
      storage = st \<rparr>"

text \<open>
  Whether \<open>storage.put\<close> resolves is decided by the storage layer, not by the object:
  \<open>put_failure\<close> is \<open>None\<close> when the write resolves and \<open>Some e\<close> when it rejects with
  \<open>e\<close>. A rejected step of \<open>addReport\<close> is the \<open>Inl\<close> of its result; the object's state
  at that moment is returned with it.
\<close>

definition addReport :: "Request \<Rightarrow> error option \<Rightarrow> InspectorDO \<Rightarrow> (error + Response) \<times> InspectorDO" where
  "addReport request put_failure this =
    (case json_body request of
       None \<Rightarrow> (Inl SyntaxError, this)
     | Some report \<Rightarrow>
         (let this = this\<lparr> reports := report # reports this \<rparr>;
              this = (if length (reports this) > 50
                      then this\<lparr> reports := take 50 (reports this) \<rparr> else this)
          in case put_failure of
               Some e \<Rightarrow> (Inl e, this)
             | None \<Rightarrow>
                 (Inr \<lparr> status = 200, body = SuccessBody \<rparr>,
                  this\<lparr> storage := (storage this)(js ''reports'' \<mapsto> reports this) \<rparr>)))"

definition listReports :: "InspectorDO \<Rightarrow> Response" where
  "listReports this = \<lparr> status = 200, body = ReportsBody (reports this) \<rparr>"

text \<open>\<open>fetch\<close>: the router, whose \<open>catch\<close> turns every rejection into a 500 response.\<close>

definition fetch :: "Request \<Rightarrow> error option \<Rightarrow> InspectorDO \<Rightarrow> Response \<times> InspectorDO" where
  "fetch request put_failure this =
    (if pathname request = js ''/add'' \<and> http_method request = js ''POST'' then
       (case addReport request put_failure this of
          (Inr response, this') \<Rightarrow> (response, this')
        | (Inl e, this') \<Rightarrow> (\<lparr> status = 500, body = ErrorBody e \<rparr>, this'))
     else if pathname request = js ''/list'' \<and> http_method request = js ''GET'' then
       (listReports this, this)
     else (\<lparr> status = 404, body = NotFoundBody \<rparr>, this))"

text \<open>The two requests the worker sends: \<open>POST /add\<close> with a report, and \<open>GET /list\<close>.\<close>

definition add_request :: "Report \<Rightarrow> Request" where
  "add_request report =
    \<lparr> pathname = js ''/add'', http_method = js ''POST'', json_body = Some report \<rparr>"

definition list_request :: Request where
  "list_request = \<lparr> pathname = js ''/list'', http_method = js ''GET'', json_body = None \<rparr>"

text \<open>
  A run of add operations issued one after the other to one object; each comes with the
  outcome of its storage write.
\<close>

fun add_all :: "(Report \<times> error option) list \<Rightarrow> InspectorDO \<Rightarrow> InspectorDO" where
  "add_all [] this = this"
| "add_all ((report, put_failure) # rest) this =
     add_all rest (snd (fetch (add_request report) put_failure this))"

text \<open>A report that carries the number \<open>i\<close> as its id, for examples.\<close>

definition sample_report :: "nat \<Rightarrow> Report" where
  "sample_report i =
    \<lparr> report_id = show_nat i, report_url = js ''https://example.com'', report_title = [],
      report_description = [], reportText = js ''{}'', metrics = scenario_metrics,
      createdAt = js ''2024-01-01T00:00:00.000Z'' \<rparr>"

section \<open>Theorems\<close>

subsection \<open>Extraction: evaluation rules and capture groups\<close>

lemmas rx_defs = rx_title_def rx_description_def rx_h1_def rx_h2_def rx_h3_def rx_tag_def rx_img_def
  rx_alt_def rx_script_def rx_stylesheet_def rx_style_def rx_viewport_def rx_charset_def
  rx_canonical_def rx_robots_def rx_opengraph_def rx_jsonld_def rx_microdata_def rx_lang_def
  rx_link_def rx_href_def rx_script_block_def rx_style_block_def rx_any_tag_def rx_spaces_def
  lit_def quote_def no_quote_def many1_def

lemmas run_defs = js_def match_here_def match_all_def replace_def test_def trim_def
  canonicalize_def is_space_def shift_def group_open_def group_close_def group0_def group1_def
  startsWith_def

lemmas example_defs = dq_def anchor_def anchor_element_def href_of_def

lemmas extract_defs = extractMetrics_def trimmed_group1_def uniqueH1Values_of_def h1Tags_of_def
  h1_text_def linkTags_of_def textContent_of_def classifyLink_def Let_def
  Math_round_def double_mul_def double_div_def round_half_even_def bitlen.simps

lemma plain_example_com:
  "plain_URL_hostname (js ''https://example.com'') = Some (js ''example.com'')"
  by (simp add: plain_URL_hostname_def run_defs)

lemma plain_no_host: "plain_URL_hostname (js ''http://'') = None"
  by (simp add: plain_URL_hostname_def run_defs)

lemma rmatch_group:
  "rmatch ci r s = Some (n, b, e) \<Longrightarrow>
     (Open \<in> set r \<longrightarrow> b \<noteq> None) \<and> (Close \<in> set r \<longrightarrow> e \<noteq> None)"
proof (induction ci r s arbitrary: n b e rule: rmatch.induct)
  case (1 ci s)
  then show ?case by simp
next
  case (2 ci c r)
  then show ?case by simp
next
  case (3 ci c r x xs)
  then show ?case
    by (auto simp: shift_def split: if_splits prod.splits)
next
  case (4 ci c r)
  then show ?case by simp
next
  case (5 ci c r x xs)
  then show ?case
    by (auto simp: shift_def split: if_splits option.splits prod.splits)
next
  case (6 ci c r)
  then show ?case by simp
next
  case (7 ci c r x xs)
  then show ?case
    by (auto simp: shift_def split: if_splits option.splits prod.splits)
next
  case (8 ci r s)
  then show ?case
    by (auto simp: group_open_def split: prod.splits)
next
  case (9 ci r s)
  then show ?case
    by (auto simp: group_close_def split: prod.splits)
qed

lemma exec_Some: "exec re s = Some (t, m) \<Longrightarrow> match_here re t = Some m"
  by (induction re s rule: exec.induct) (auto split: option.splits)

lemma single_alt_group:
  assumes "exec (Regex [r] ci) s = Some m" and "Open \<in> set r" and "Close \<in> set r"
  shows "group1 m \<noteq> None"
proof -
  obtain t n b e where m: "m = (t, n, b, e)" by (cases m) auto
  with assms(1) have "match_here (Regex [r] ci) t = Some (n, b, e)"
    by (simp add: exec_Some)
  then have "rmatch ci r t = Some (n, b, e)"
    by (simp add: match_here_def split: option.splits)
  from rmatch_group [OF this] assms(2,3) show ?thesis
    by (auto simp: group1_def m)
qed

lemma title_group: "exec rx_title s = Some m \<Longrightarrow> group1 m \<noteq> None"
  unfolding rx_title_def by (erule single_alt_group) (simp_all add: lit_def)

lemma description_group: "exec rx_description s = Some m \<Longrightarrow> group1 m \<noteq> None"
  unfolding rx_description_def by (erule single_alt_group) (simp_all add: lit_def many1_def)

lemma href_group: "exec rx_href s = Some m \<Longrightarrow> group1 m \<noteq> None"
  unfolding rx_href_def by (erule single_alt_group) (simp_all add: lit_def)

lemma trimmed_title: "\<exists>t. trimmed_group1 rx_title html = Inr t"
  by (auto simp: trimmed_group1_def dest: title_group split: option.splits)

lemma trimmed_description: "\<exists>t. trimmed_group1 rx_description html = Inr t"
  by (auto simp: trimmed_group1_def dest: description_group split: option.splits)

lemma classifyLink_Inr: "\<exists>c. classifyLink P h link counts = Inr c"
  by (cases counts) (auto simp: classifyLink_def dest: href_group split: option.splits)

lemma forEach_link_Inr: "\<exists>c. forEach_link P h links counts = Inr c"
proof (induction links arbitrary: counts)
  case Nil
  then show ?case by simp
next
  case (Cons link links)
  obtain c where "classifyLink P h link counts = Inr c"
    using classifyLink_Inr by blast
  with Cons show ?case by simp
qed

lemma extractMetrics_None:
  assumes "URL_hostname pageUrl = None"
  shows "extractMetrics URL_hostname html pageUrl = Inl TypeError"
proof -
  obtain t where t: "trimmed_group1 rx_title html = Inr t"
    using trimmed_title by blast
  obtain d where d: "trimmed_group1 rx_description html = Inr d"
    using trimmed_description by blast
  show ?thesis
    by (simp add: extractMetrics_def t d assms Let_def)
qed

lemma extractMetrics_Some:
  assumes "URL_hostname pageUrl = Some h"
  shows "\<exists>t d i e.
     trimmed_group1 rx_title html = Inr t
     \<and> trimmed_group1 rx_description html = Inr d
     \<and> forEach_link URL_hostname h (linkTags_of html) (0, 0) = Inr (i, e)
     \<and> extractMetrics URL_hostname html pageUrl =
         Inr \<lparr> url = pageUrl, title = t, description = d,
               h1Count = length (h1Tags_of html),
               h2Count = length (match_all rx_h2 html),
               h3Count = length (match_all rx_h3 html),
               imgCount = length (match_all rx_img html),
               imgWithAltCount = length (filter (test rx_alt) (match_all rx_img html)),
               scriptCount = length (match_all rx_script html),
               stylesheetCount = length (match_all rx_stylesheet html),
               inlineStyleCount = length (match_all rx_style html),
               htmlLength = length html,
               hasViewport = test rx_viewport html,
               hasLang = test rx_lang html,
               hasCanonical = test rx_canonical html,
               hasRobots = test rx_robots html,
               hasOpenGraph = test rx_opengraph html,
               hasStructuredData = (test rx_jsonld html \<or> test rx_microdata html),
               hasCharset = test rx_charset html,
               isHttps = startsWith pageUrl (js ''https://''),
               linkCount = length (linkTags_of html),
               internalLinkCount = i,
               externalLinkCount = e,
               hasH1 = (length (h1Tags_of html) > 0),
               uniqueH1 = (length (uniqueH1Values_of html) = 1 \<and> length (h1Tags_of html) > 0),
               textToHtmlRatio = Math_round
                 (if length html > 0
                  then double_mul (double_div (length (textContent_of html)) (length html)) 100
                  else (0, 0)) \<rparr>"
proof -
  obtain t where t: "trimmed_group1 rx_title html = Inr t"
    using trimmed_title by blast
  obtain d where d: "trimmed_group1 rx_description html = Inr d"
    using trimmed_description by blast
  obtain c where "forEach_link URL_hostname h (linkTags_of html) (0, 0) = Inr c"
    using forEach_link_Inr by blast
  then obtain i e where c: "forEach_link URL_hostname h (linkTags_of html) (0, 0) = Inr (i, e)"
    by (cases c) auto
  show ?thesis
    by (simp add: extractMetrics_def t d c assms Let_def)
qed

subsection \<open>Totality of the extraction\<close>

lemma extractMetrics_empty:
  assumes "URL_hostname pageUrl = Some h"
  shows "extractMetrics URL_hostname [] pageUrl =
     Inr \<lparr> url = pageUrl, title = [], description = [],
           h1Count = 0, h2Count = 0, h3Count = 0, imgCount = 0, imgWithAltCount = 0,
           scriptCount = 0, stylesheetCount = 0, inlineStyleCount = 0, htmlLength = 0,
           hasViewport = False, hasLang = False, hasCanonical = False, hasRobots = False,
           hasOpenGraph = False, hasStructuredData = False, hasCharset = False,
           isHttps = startsWith pageUrl (js ''https://''),
           linkCount = 0, internalLinkCount = 0, externalLinkCount = 0,
           hasH1 = False, uniqueH1 = False, textToHtmlRatio = 0 \<rparr>"
  by (simp add: extract_defs assms rx_defs match_here_def match_all_def replace_def test_def
      trim_def)

text \<open>
  C6 (amended). For every markup and every source URL that the URL parser accepts, the
  extraction returns a PageMetrics value, in which a feature that the markup lacks has
  the zero, empty or false value: no title or description match gives the empty string,
  no H1, image or anchor match gives zero counts and false flags. On the empty markup
  every count is zero, every string empty and every flag but the HTTPS flag false. When
  the parser rejects the source URL the extraction throws a TypeError, whatever the
  markup.
\<close>

theorem C6_extraction_total:
  "(URL_hostname pageUrl = Some h \<longrightarrow>
      (\<exists>m. extractMetrics URL_hostname html pageUrl = Inr m
         \<and> (exec rx_title html = None \<longrightarrow> title m = [])
         \<and> (exec rx_description html = None \<longrightarrow> description m = [])
         \<and> (h1Tags_of html = [] \<longrightarrow> h1Count m = 0 \<and> \<not> hasH1 m \<and> \<not> uniqueH1 m)
         \<and> (match_all rx_img html = [] \<longrightarrow> imgCount m = 0 \<and> imgWithAltCount m = 0)
         \<and> (linkTags_of html = [] \<longrightarrow>
              linkCount m = 0 \<and> internalLinkCount m = 0 \<and> externalLinkCount m = 0))
      \<and> extractMetrics URL_hostname [] pageUrl =
          Inr \<lparr> url = pageUrl, title = [], description = [],
                h1Count = 0, h2Count = 0, h3Count = 0, imgCount = 0, imgWithAltCount = 0,
                scriptCount = 0, stylesheetCount = 0, inlineStyleCount = 0, htmlLength = 0,
                hasViewport = False, hasLang = False, hasCanonical = False, hasRobots = False,
                hasOpenGraph = False, hasStructuredData = False, hasCharset = False,
                isHttps = startsWith pageUrl (js ''https://''),
                linkCount = 0, internalLinkCount = 0, externalLinkCount = 0,
                hasH1 = False, uniqueH1 = False, textToHtmlRatio = 0 \<rparr>)
   \<and> (URL_hostname pageUrl = None \<longrightarrow>
        extractMetrics URL_hostname html pageUrl = Inl TypeError)"
proof (intro conjI impI)
  assume "URL_hostname pageUrl = Some h"
  then obtain t d i e where t: "trimmed_group1 rx_title html = Inr t"
    and d: "trimmed_group1 rx_description html = Inr d"
    and l: "forEach_link URL_hostname h (linkTags_of html) (0, 0) = Inr (i, e)"
    and m: "extractMetrics URL_hostname html pageUrl =
         Inr \<lparr> url = pageUrl, title = t, description = d,
               h1Count = length (h1Tags_of html),
               h2Count = length (match_all rx_h2 html),
               h3Count = length (match_all rx_h3 html),
               imgCount = length (match_all rx_img html),
               imgWithAltCount = length (filter (test rx_alt) (match_all rx_img html)),
               scriptCount = length (match_all rx_script html),
               stylesheetCount = length (match_all rx_stylesheet html),
               inlineStyleCount = length (match_all rx_style html),
               htmlLength = length html,
               hasViewport = test rx_viewport html,
               hasLang = test rx_lang html,
               hasCanonical = test rx_canonical html,
               hasRobots = test rx_robots html,
               hasOpenGraph = test rx_opengraph html,
               hasStructuredData = (test rx_jsonld html \<or> test rx_microdata html),
               hasCharset = test rx_charset html,
               isHttps = startsWith pageUrl (js ''https://''),
               linkCount = length (linkTags_of html),
               internalLinkCount = i,
               externalLinkCount = e,
               hasH1 = (length (h1Tags_of html) > 0),
               uniqueH1 = (length (uniqueH1Values_of html) = 1 \<and> length (h1Tags_of html) > 0),
               textToHtmlRatio = Math_round
                 (if length html > 0
                  then double_mul (double_div (length (textContent_of html)) (length html)) 100
                  else (0, 0)) \<rparr>"
    using extractMetrics_Some [of URL_hostname pageUrl h html] by blast
  have "exec rx_title html = None \<longrightarrow> t = []"
    using t by (auto simp: trimmed_group1_def)
  moreover have "exec rx_description html = None \<longrightarrow> d = []"
    using d by (auto simp: trimmed_group1_def)
  moreover have "linkTags_of html = [] \<longrightarrow> i = 0 \<and> e = 0"
    using l by auto
  ultimately show "\<exists>m. extractMetrics URL_hostname html pageUrl = Inr m
         \<and> (exec rx_title html = None \<longrightarrow> title m = [])
         \<and> (exec rx_description html = None \<longrightarrow> description m = [])
         \<and> (h1Tags_of html = [] \<longrightarrow> h1Count m = 0 \<and> \<not> hasH1 m \<and> \<not> uniqueH1 m)
         \<and> (match_all rx_img html = [] \<longrightarrow> imgCount m = 0 \<and> imgWithAltCount m = 0)
         \<and> (linkTags_of html = [] \<longrightarrow>
              linkCount m = 0 \<and> internalLinkCount m = 0 \<and> externalLinkCount m = 0)"
    unfolding m by simp
next
  assume "URL_hostname pageUrl = Some h"
  then show "extractMetrics URL_hostname [] pageUrl =
          Inr \<lparr> url = pageUrl, title = [], description = [],
                h1Count = 0, h2Count = 0, h3Count = 0, imgCount = 0, imgWithAltCount = 0,
                scriptCount = 0, stylesheetCount = 0, inlineStyleCount = 0, htmlLength = 0,
                hasViewport = False, hasLang = False, hasCanonical = False, hasRobots = False,
                hasOpenGraph = False, hasStructuredData = False, hasCharset = False,
                isHttps = startsWith pageUrl (js ''https://''),
                linkCount = 0, internalLinkCount = 0, externalLinkCount = 0,
                hasH1 = False, uniqueH1 = False, textToHtmlRatio = 0 \<rparr>"
    by (rule extractMetrics_empty)
next
  assume "URL_hostname pageUrl = None"
  then show "extractMetrics URL_hostname html pageUrl = Inl TypeError"
    by (rule extractMetrics_None)
qed

lemma no_features_in_paragraph:
  "exec rx_title (js ''<p>x</p>'') = None"
  "exec rx_description (js ''<p>x</p>'') = None"
  "h1Tags_of (js ''<p>x</p>'') = []"
  "match_all rx_img (js ''<p>x</p>'') = []"
  "linkTags_of (js ''<p>x</p>'') = []"
  by (simp_all add: h1Tags_of_def linkTags_of_def rx_defs run_defs)

theorem C6_extraction_total_witness:
  "plain_URL_hostname (js ''https://example.com'') = Some (js ''example.com'')
   \<and> exec rx_title (js ''<p>x</p>'') = None
   \<and> exec rx_description (js ''<p>x</p>'') = None
   \<and> h1Tags_of (js ''<p>x</p>'') = []
   \<and> match_all rx_img (js ''<p>x</p>'') = []
   \<and> linkTags_of (js ''<p>x</p>'') = []
   \<and> (\<exists>m. extractMetrics plain_URL_hostname (js ''<p>x</p>'') (js ''https://example.com'') = Inr m
        \<and> title m = [] \<and> description m = [] \<and> h1Count m = 0 \<and> \<not> hasH1 m \<and> \<not> uniqueH1 m
        \<and> imgCount m = 0 \<and> imgWithAltCount m = 0
        \<and> linkCount m = 0 \<and> internalLinkCount m = 0 \<and> externalLinkCount m = 0)
   \<and> plain_URL_hostname (js ''http://'') = None
   \<and> extractMetrics plain_URL_hostname (js ''<p>x</p>'') (js ''http://'') = Inl TypeError"
  using C6_extraction_total [of plain_URL_hostname "js ''https://example.com''" "js ''example.com''"
      "js ''<p>x</p>''"]
    C6_extraction_total [of plain_URL_hostname "js ''http://''" "js ''example.com''"
      "js ''<p>x</p>''"]
  by (simp add: plain_example_com plain_no_host no_features_in_paragraph)

text \<open>
  C6 as stated fails: \<open>http://\<close> starts with \<open>http://\<close>, the URL parser rejects it for
  its missing host, and the extraction throws instead of returning a value.
\<close>

theorem C6_validated_prefix_counterexample:
  "startsWith (js ''http://'') (js ''http://'')
   \<and> extractMetrics plain_URL_hostname (js ''<h1>Hello</h1>'') (js ''http://'') = Inl TypeError"
  by (simp add: extract_defs plain_URL_hostname_def rx_defs run_defs)

subsection \<open>The unique-H1 flag\<close>

text \<open>
  C1 (amended). The uniqueH1 flag is true exactly when at least one H1 element is matched
  and the matched H1 elements have one distinct trimmed text between them. A single
  matched H1 is therefore always unique, whatever its text, and so are several H1
  elements that carry the same text.
\<close>

theorem C1_uniqueH1_distinct_texts:
  "URL_hostname pageUrl = Some h \<Longrightarrow>
     \<exists>m. extractMetrics URL_hostname html pageUrl = Inr m
       \<and> h1Count m = length (h1Tags_of html)
       \<and> uniqueH1 m = (length (h1Tags_of html) \<ge> 1 \<and> card (set (map h1_text (h1Tags_of html))) = 1)
       \<and> (length (h1Tags_of html) = 1 \<longrightarrow> uniqueH1 m)"
proof -
  assume "URL_hostname pageUrl = Some h"
  then obtain m where m: "extractMetrics URL_hostname html pageUrl = Inr m"
      and c: "h1Count m = length (h1Tags_of html)"
      and u: "uniqueH1 m = (length (uniqueH1Values_of html) = 1 \<and> length (h1Tags_of html) > 0)"
    using extractMetrics_Some [of URL_hostname pageUrl h html] by auto
  have size: "length (uniqueH1Values_of html) = card (set (map h1_text (h1Tags_of html)))"
    by (simp add: uniqueH1Values_of_def length_remdups_card_conv)
  have one: "length (h1Tags_of html) = 1 \<Longrightarrow> length (uniqueH1Values_of html) = 1"
    by (cases "h1Tags_of html") (simp_all add: uniqueH1Values_of_def)
  have pos: "(length (h1Tags_of html) \<ge> 1) = (length (h1Tags_of html) > 0)"
    by arith
  from u have iff: "uniqueH1 m =
      (length (h1Tags_of html) \<ge> 1 \<and> card (set (map h1_text (h1Tags_of html))) = 1)"
    unfolding size pos by blast
  from u one have single: "length (h1Tags_of html) = 1 \<longrightarrow> uniqueH1 m"
    by auto
  from m c iff single show ?thesis by blast
qed

lemma h1Tags_A_B:
  "h1Tags_of (js ''<h1>A</h1><h1>B</h1>'') = [js ''<h1>A</h1>'', js ''<h1>B</h1>'']"
  by (simp add: h1Tags_of_def rx_defs run_defs)

lemma h1_text_A_B: "h1_text (js ''<h1>A</h1>'') = js ''A''" "h1_text (js ''<h1>B</h1>'') = js ''B''"
  by (simp_all add: h1_text_def rx_defs run_defs)

theorem C1_uniqueH1_distinct_texts_witness:
  "plain_URL_hostname (js ''https://example.com'') = Some (js ''example.com'')
   \<and> (\<exists>m. extractMetrics plain_URL_hostname (js ''<h1>A</h1><h1>B</h1>'') (js ''https://example.com'') = Inr m
        \<and> h1Count m = 2 \<and> \<not> uniqueH1 m)"
proof -
  have "card (set (map h1_text (h1Tags_of (js ''<h1>A</h1><h1>B</h1>'')))) = 2"
    by (simp add: h1Tags_A_B h1_text_A_B) (simp add: js_def)
  with C1_uniqueH1_distinct_texts [of plain_URL_hostname "js ''https://example.com''"
      "js ''example.com''" "js ''<h1>A</h1><h1>B</h1>''"]
  show ?thesis
    by (auto simp: plain_example_com h1Tags_A_B)
qed

text \<open>
  C1 as stated fails twice: two H1 elements with the same text are reported as unique
  although there is more than one H1, and a single H1 with empty text is reported as
  unique although the claim excludes it.
\<close>

theorem C1_same_text_counterexample:
  "extractMetrics plain_URL_hostname (js ''<h1>A</h1><h1>A</h1>'') (js ''https://example.com'') =
     Inr \<lparr> url = js ''https://example.com'', title = [], description = [],
           h1Count = 2, h2Count = 0, h3Count = 0, imgCount = 0, imgWithAltCount = 0,
           scriptCount = 0, stylesheetCount = 0, inlineStyleCount = 0, htmlLength = 20,
           hasViewport = False, hasLang = False, hasCanonical = False, hasRobots = False,
           hasOpenGraph = False, hasStructuredData = False, hasCharset = False, isHttps = True,
           linkCount = 0, internalLinkCount = 0, externalLinkCount = 0,
           hasH1 = True, uniqueH1 = True, textToHtmlRatio = 15 \<rparr>
   \<and> extractMetrics plain_URL_hostname (js ''<h1></h1>'') (js ''https://example.com'') =
     Inr \<lparr> url = js ''https://example.com'', title = [], description = [],
           h1Count = 1, h2Count = 0, h3Count = 0, imgCount = 0, imgWithAltCount = 0,
           scriptCount = 0, stylesheetCount = 0, inlineStyleCount = 0, htmlLength = 9,
           hasViewport = False, hasLang = False, hasCanonical = False, hasRobots = False,
           hasOpenGraph = False, hasStructuredData = False, hasCharset = False, isHttps = True,
           linkCount = 0, internalLinkCount = 0, externalLinkCount = 0,
           hasH1 = True, uniqueH1 = True, textToHtmlRatio = 0 \<rparr>"
  by (simp add: extract_defs plain_URL_hostname_def rx_defs run_defs)

subsection \<open>Link classification\<close>

lemma startsWith_slash_not_hash: "startsWith href (js ''/'') \<Longrightarrow> \<not> startsWith href (js ''#'')"
  by (cases href) (simp_all add: startsWith_def js_def)



lemma classifyLink_href:
  assumes "href_of link = Some href"
  shows "classifyLink URL_hostname h link (i, e) =
     (if startsWith href (js ''http'') then
        (case URL_hostname href of
           Some linkHostname \<Rightarrow> if linkHostname = h then Inr (i + 1, e) else Inr (i, e + 1)
         | None \<Rightarrow> Inr (i, e))
      else if \<not> startsWith href (js ''#'') then Inr (i + 1, e)
      else Inr (i, e))"
proof -
  from assms obtain hm where "exec rx_href link = Some hm" and "group1 hm = Some href"
    by (auto simp: href_of_def split: option.splits)
  then show ?thesis
    using startsWith_slash_not_hash [of href]
    by (auto simp: classifyLink_def split: option.splits)
qed





lemma linkTags_of_scheme_links:
  "linkTags_of scheme_links =
     [anchor ''mailto:a@b.c'', anchor ''tel:+15550100'', anchor ''javascript:void(0)'']"
  by (simp add: linkTags_of_def scheme_links_def example_defs rx_defs run_defs)



text \<open>
  C10. An anchor whose href starts neither with \<open>http\<close> nor with \<open>#\<close> is counted as an
  internal link, whatever else it is: the three anchors with a \<open>mailto:\<close>, a \<open>tel:\<close>
  and a \<open>javascript:\<close> href give an internal count of 3 on a page without a single
  relative link.
\<close>

theorem C10_other_schemes_internal:
  "(href_of link = Some href \<and> \<not> startsWith href (js ''http'') \<and> \<not> startsWith href (js ''#'') \<longrightarrow>
      classifyLink URL_hostname h link (i, e) = Inr (i + 1, e))
   \<and> (\<exists>m. extractMetrics plain_URL_hostname scheme_links (js ''https://example.com'') = Inr m
        \<and> linkCount m = 3 \<and> internalLinkCount m = 3 \<and> externalLinkCount m = 0)"
proof
  show "href_of link = Some href \<and> \<not> startsWith href (js ''http'') \<and> \<not> startsWith href (js ''#'') \<longrightarrow>
      classifyLink URL_hostname h link (i, e) = Inr (i + 1, e)"
    by (auto simp: classifyLink_href)
next
  let ?html = scheme_links
  have hrefs: "href_of (anchor ''mailto:a@b.c'') = Some (js ''mailto:a@b.c'')"
    "href_of (anchor ''tel:+15550100'') = Some (js ''tel:+15550100'')"
    "href_of (anchor ''javascript:void(0)'') = Some (js ''javascript:void(0)'')"
    by (simp_all add: example_defs rx_defs run_defs)
  have steps:
    "classifyLink plain_URL_hostname (js ''example.com'') (anchor ''mailto:a@b.c'') (0, 0) = Inr (1, 0)"
    "classifyLink plain_URL_hostname (js ''example.com'') (anchor ''tel:+15550100'') (1, 0) = Inr (2, 0)"
    "classifyLink plain_URL_hostname (js ''example.com'') (anchor ''javascript:void(0)'') (2, 0) = Inr (3, 0)"
    by (simp_all add: classifyLink_href [OF hrefs(1)] classifyLink_href [OF hrefs(2)]
        classifyLink_href [OF hrefs(3)] startsWith_def js_def)
  have run: "forEach_link plain_URL_hostname (js ''example.com'') (linkTags_of ?html) (0, 0) = Inr (3, 0)"
    using steps by (simp add: linkTags_of_scheme_links)
  have len: "length (linkTags_of ?html) = 3"
    by (simp add: linkTags_of_scheme_links)
  obtain m where m: "extractMetrics plain_URL_hostname ?html (js ''https://example.com'') = Inr m"
      and "linkCount m = length (linkTags_of ?html)"
      and "internalLinkCount m = fst (projr (forEach_link plain_URL_hostname (js ''example.com'')
             (linkTags_of ?html) (0, 0)))"
      and "externalLinkCount m = snd (projr (forEach_link plain_URL_hostname (js ''example.com'')
             (linkTags_of ?html) (0, 0)))"
    using extractMetrics_Some [of plain_URL_hostname "js ''https://example.com''"
        "js ''example.com''" ?html] plain_example_com
    by auto
  with run len have "linkCount m = 3 \<and> internalLinkCount m = 3 \<and> externalLinkCount m = 0"
    by simp
  with m show "\<exists>m. extractMetrics plain_URL_hostname ?html (js ''https://example.com'') = Inr m
        \<and> linkCount m = 3 \<and> internalLinkCount m = 3 \<and> externalLinkCount m = 0"
    by blast
qed

theorem C10_other_schemes_internal_witness:
  "href_of (anchor ''mailto:a@b.c'') = Some (js ''mailto:a@b.c'')
   \<and> \<not> startsWith (js ''mailto:a@b.c'') (js ''http'')
   \<and> \<not> startsWith (js ''mailto:a@b.c'') (js ''#'')
   \<and> classifyLink plain_URL_hostname (js ''example.com'') (anchor ''mailto:a@b.c'') (0, 0) = Inr (1, 0)"
proof -
  have facts: "href_of (anchor ''mailto:a@b.c'') = Some (js ''mailto:a@b.c'')"
    "\<not> startsWith (js ''mailto:a@b.c'') (js ''http'')"
    "\<not> startsWith (js ''mailto:a@b.c'') (js ''#'')"
    by (simp_all add: example_defs rx_defs run_defs)
  with C10_other_schemes_internal [where link = "anchor ''mailto:a@b.c''"
      and href = "js ''mailto:a@b.c''" and URL_hostname = plain_URL_hostname
      and h = "js ''example.com''" and i = 0 and e = 0]
  show ?thesis by simp
qed

subsection \<open>Fallback scorer\<close>

lemma fallback_seo: "seo (fallbackScores m) = table_seo m"
  by (simp add: fallbackScores_def table_seo_def bonus_def Let_def)

lemma fallback_performance: "performance (fallbackScores m) = table_performance m"
  by (simp add: fallbackScores_def table_performance_def bonus_def Let_def)

lemma fallback_accessibility: "accessibility (fallbackScores m) = table_accessibility m"
  by (simp add: fallbackScores_def table_accessibility_def bonus_def Let_def)

lemma fallback_bestPractices: "bestPractices (fallbackScores m) = table_bestPractices m"
  by (simp add: fallbackScores_def table_bestPractices_def bonus_def Let_def)

lemma scores_createFallbackAnalysis: "scores (createFallbackAnalysis m) = fallbackScores m"
  by (simp add: createFallbackAnalysis_def Let_def)

text \<open>
  C4. For every PageMetrics input the four scores of the fallback analysis are the ones of
  the point table (SEO from 50, performance from 70, accessibility from 50, best practices
  from 60, the listed bonuses, clamped to 100), and the metrics of the specification's
  scenario score SEO 70, performance 100, accessibility 60, best practices 100.
\<close>

theorem C4_fallback_point_table:
  "scores (createFallbackAnalysis m) =
     \<lparr> seo = table_seo m, performance = table_performance m,
       accessibility = table_accessibility m, bestPractices = table_bestPractices m \<rparr>
   \<and> scores (createFallbackAnalysis scenario_metrics) =
     \<lparr> seo = 70, performance = 100, accessibility = 60, bestPractices = 100 \<rparr>"
proof
  have "fallbackScores m =
     \<lparr> seo = seo (fallbackScores m), performance = performance (fallbackScores m),
       accessibility = accessibility (fallbackScores m),
       bestPractices = bestPractices (fallbackScores m) \<rparr>"
    by simp
  then show "scores (createFallbackAnalysis m) =
     \<lparr> seo = table_seo m, performance = table_performance m,
       accessibility = table_accessibility m, bestPractices = table_bestPractices m \<rparr>"
    by (simp only: scores_createFallbackAnalysis fallback_seo fallback_performance
        fallback_accessibility fallback_bestPractices)
next
  show "scores (createFallbackAnalysis scenario_metrics) =
     \<lparr> seo = 70, performance = 100, accessibility = 60, bestPractices = 100 \<rparr>"
    by (simp add: scores_createFallbackAnalysis fallbackScores_def scenario_metrics_def Let_def)
qed

lemma table_seo_range: "0 \<le> table_seo m \<and> table_seo m \<le> 100"
  by (simp add: table_seo_def bonus_def)

lemma table_performance_range: "0 \<le> table_performance m \<and> table_performance m \<le> 100"
  by (simp add: table_performance_def bonus_def)

lemma table_accessibility_range: "0 \<le> table_accessibility m \<and> table_accessibility m \<le> 100"
  by (simp add: table_accessibility_def bonus_def)

lemma table_bestPractices_range: "0 \<le> table_bestPractices m \<and> table_bestPractices m \<le> 100"
  by (simp add: table_bestPractices_def bonus_def)

text \<open>
  C9. For every PageMetrics input, each of the four scores of the fallback analysis (SEO,
  performance, accessibility, best practices) is an integer between 0 and 100.
\<close>

theorem C9_fallback_scores_in_range:
  "0 \<le> seo (scores (createFallbackAnalysis m)) \<and> seo (scores (createFallbackAnalysis m)) \<le> 100
   \<and> 0 \<le> performance (scores (createFallbackAnalysis m))
   \<and> performance (scores (createFallbackAnalysis m)) \<le> 100
   \<and> 0 \<le> accessibility (scores (createFallbackAnalysis m))
   \<and> accessibility (scores (createFallbackAnalysis m)) \<le> 100
   \<and> 0 \<le> bestPractices (scores (createFallbackAnalysis m))
   \<and> bestPractices (scores (createFallbackAnalysis m)) \<le> 100"
  using table_seo_range [of m] table_performance_range [of m]
    table_accessibility_range [of m] table_bestPractices_range [of m]
  by (simp only: scores_createFallbackAnalysis fallback_seo fallback_performance
      fallback_accessibility fallback_bestPractices)

subsection \<open>Status mapping\<close>

text \<open>
  C3. A score of at least 0.9 maps to good, a score from 0.5 up to but excluding 0.9 to
  needs-improvement, a present score below 0.5 to poor, an absent score to unavailable;
  0.95 is good, 0.70 needs improvement, 0.30 is poor.
\<close>

theorem C3_status_mapping:
  "(s \<ge> 0.9 \<longrightarrow> getStatus (Some s) = good)
   \<and> (0.5 \<le> s \<and> s < 0.9 \<longrightarrow> getStatus (Some s) = needs_improvement)
   \<and> (s < 0.5 \<longrightarrow> getStatus (Some s) = poor)
   \<and> getStatus None = unavailable
   \<and> getStatus (Some 0.95) = good
   \<and> getStatus (Some 0.70) = needs_improvement
   \<and> getStatus (Some 0.30) = poor"
  by (simp add: getStatus_def)

theorem C3_status_mapping_witness:
  "(1::real) \<ge> 0.9 \<and> getStatus (Some 1) = good
   \<and> (0.5::real) \<le> 0.5 \<and> (0.5::real) < 0.9 \<and> getStatus (Some 0.5) = needs_improvement
   \<and> (0::real) < 0.5 \<and> getStatus (Some 0) = poor"
  using C3_status_mapping [of 1] C3_status_mapping [of "0.5"] C3_status_mapping [of 0]
  by simp

subsection \<open>Field and lab measurements\<close>

lemmas vitals_defs = fetchCoreWebVitals_def measured_vitals_def unavailable_vitals_def or_else_def
  formatMetric_def toFixed_def double_div_by_def double_value_def getStatus_def
  lab_and_field_def field_only_def Let_def

lemmas double_defs = Math_round_def double_mul_def double_div_def round_half_even_def bitlen.simps

lemma show_nat_250000: "show_nat 250000 = js ''250000''"
  by (simp add: show_nat.simps js_def)

text \<open>
  C2 (the code at the failing input). The response carries a lab audit of LCP with
  display value \<open>1.2 s\<close> and a field measurement of LCP with percentile 2500. The
  normalizer reports the lab value; it reports the field measurement, \<open>2500.00ms\<close>,
  only for the response without the lab audit.
\<close>

theorem C2_lab_value_reported_first:
  "vital_value (lcp (fetchCoreWebVitals (Some (js ''key'')) (Inr lab_and_field))) = js ''1.2 s''
   \<and> vital_status (lcp (fetchCoreWebVitals (Some (js ''key'')) (Inr lab_and_field))) = good
   \<and> vital_value (lcp (fetchCoreWebVitals (Some (js ''key'')) (Inr field_only))) = js ''2500.00ms''
   \<and> vital_status (lcp (fetchCoreWebVitals (Some (js ''key'')) (Inr field_only))) = unavailable"
  by (simp add: vitals_defs double_defs show_nat_250000) (simp add: js_def)

subsection \<open>History store\<close>

lemma reports_after_add:
  "reports (snd (fetch (add_request r) pf this)) = take 50 (r # reports this)"
  by (cases pf) (simp_all add: fetch_def add_request_def addReport_def Let_def)

lemma add_all_append: "add_all (xs @ ys) this = add_all ys (add_all xs this)"
  by (induction xs this rule: add_all.induct) simp_all

lemma take_50_Cons_take: "take 50 (r # take 50 ys) = take 50 (r # ys)"
  by simp

lemma reports_add_all:
  "ops \<noteq> [] \<Longrightarrow> reports (add_all ops this) = take 50 (rev (map fst ops) @ reports this)"
proof (induction ops rule: rev_induct)
  case Nil
  then show ?case by simp
next
  case (snoc x xs)
  obtain r pf where x: "x = (r, pf)" by (cases x)
  have step: "reports (add_all (xs @ [x]) this) = take 50 (r # reports (add_all xs this))"
    by (simp add: add_all_append x reports_after_add)
  show ?case
  proof (cases "xs = []")
    case True
    with step show ?thesis by (simp add: x)
  next
    case False
    with snoc.IH have "reports (add_all xs this) = take 50 (rev (map fst xs) @ reports this)"
      by simp
    with step have "reports (add_all (xs @ [x]) this) =
        take 50 (r # rev (map fst xs) @ reports this)"
      by (simp only: take_50_Cons_take)
    then show ?thesis by (simp add: x)
  qed
qed

text \<open>
  C5. After more than 50 add operations issued one after the other to one object,
  whatever its log held before and whether or not the storage writes succeeded, a list
  operation returns exactly 50 entries: the 50 reports added last, the most recent first.
  Each single add leaves the log as the new report followed by the old log, cut to 50.
\<close>

theorem C5_history_bound:
  "length ops > 50 \<Longrightarrow>
     fst (fetch list_request None (add_all ops this)) =
       \<lparr> status = 200, body = ReportsBody (take 50 (rev (map fst ops))) \<rparr>
     \<and> length (take 50 (rev (map fst ops))) = 50
     \<and> reports (snd (fetch (add_request r) pf this)) = take 50 (r # reports this)"
proof -
  assume len: "length ops > 50"
  then have "ops \<noteq> []" by auto
  then have "reports (add_all ops this) = take 50 (rev (map fst ops) @ reports this)"
    by (rule reports_add_all)
  with len have "reports (add_all ops this) = take 50 (rev (map fst ops))"
    by simp
  then have "fst (fetch list_request None (add_all ops this)) =
       \<lparr> status = 200, body = ReportsBody (take 50 (rev (map fst ops))) \<rparr>"
    by (simp add: fetch_def list_request_def listReports_def js_def)
  moreover from len have "length (take 50 (rev (map fst ops))) = 50"
    by simp
  ultimately show ?thesis
    by (simp only: reports_after_add simp_thms)
qed

lemma upt_51: "[0..<51] = 0 # [Suc 0..<51]"
  by (rule upt_conv_Cons) simp

theorem C5_history_bound_witness:
  "length (map (\<lambda>i. (sample_report i, if even i then None else Some StorageError)) [0..<51]) > 50
   \<and> fst (fetch list_request None
        (add_all (map (\<lambda>i. (sample_report i, if even i then None else Some StorageError)) [0..<51])
           (constructor Map.empty))) =
       \<lparr> status = 200, body = ReportsBody (rev (map sample_report [1..<51])) \<rparr>
   \<and> length (rev (map sample_report [1..<51])) = 50"
  using C5_history_bound [of "map (\<lambda>i. (sample_report i, if even i then None else Some StorageError)) [0..<51]"
      "constructor Map.empty" "sample_report 0" None]
  by (simp add: rev_map o_def upt_51 del: upt_Suc)

text \<open>
  C8. When the storage write of an add operation fails, the caller receives an error
  response (status 500 carrying the error), the storage is left as it was, and the
  in-memory log is not rolled back: the new report is its first entry.
\<close>

theorem C8_failed_write_not_rolled_back:
  "fetch (add_request r) (Some e) this =
     (\<lparr> status = 500, body = ErrorBody e \<rparr>,
      this\<lparr> reports := take 50 (r # reports this) \<rparr>)
   \<and> hd (reports (snd (fetch (add_request r) (Some e) this))) = r
   \<and> r \<in> set (reports (snd (fetch (add_request r) (Some e) this)))
   \<and> storage (snd (fetch (add_request r) (Some e) this)) = storage this"
  by (simp add: fetch_def add_request_def addReport_def Let_def)

end
